theory Spec2Isabelle
  imports Complex_Main "HOL-Library.AList"
begin

section \<open>JavaScript values\<close>

text \<open>
  The message engine and the accordion of
  \<^verbatim>\<open>dist/govuk/components/accordion/accordion.bundle.js\<close> are embedded as HOL functions.
  A string is a list of code units (only units below 256 are representable), a number is
  either finite or one of the three non-finite values, and a thrown \<^verbatim>\<open>Error\<close> is a
  value of the type \<open>error\<close>.
\<close>

datatype jsnum = Fin rat | NaN | PosInfinity | NegInfinity

datatype jsval =
    JUndefined
  | JNull
  | JBool bool
  | JNum jsnum
  | JStr string
  | JObject

text \<open>
  The errors the code throws:
  \<^item> \<open>LookupKeyMissing\<close>: \<^verbatim>\<open>i18n: lookup key missing\<close>;
  \<^item> \<open>OptionsRequired\<close>: \<^verbatim>\<open>i18n: cannot replace placeholders in string if no option data provided\<close>;
  \<^item> \<open>PlaceholderDataMissing p\<close>: \<^verbatim>\<open>i18n: no data found to replace p placeholder in string\<close>;
  \<^item> \<open>PluralOtherRequired l\<close>: \<^verbatim>\<open>i18n: Plural form ".other" is required for "l" locale\<close>;
  \<^item> \<open>RangeError l\<close>: the \<^verbatim>\<open>RangeError\<close> of \<^verbatim>\<open>supportedLocalesOf\<close> on a locale \<open>l\<close> that is no
    well-formed language tag;
  \<^item> \<open>StorageException\<close>: the exception of \<^verbatim>\<open>window.sessionStorage\<close> (access denied, quota
    exceeded).
\<close>

datatype error =
    LookupKeyMissing
  | OptionsRequired
  | PlaceholderDataMissing string
  | PluralOtherRequired string
  | RangeError string
  | StorageException

datatype category = Zero | One | Two | Few | Many | Other

fun categoryName :: "category \<Rightarrow> string" where
  "categoryName Zero = ''zero''"
| "categoryName One = ''one''"
| "categoryName Two = ''two''"
| "categoryName Few = ''few''"
| "categoryName Many = ''many''"
| "categoryName Other = ''other''"

datatype family =
  Arabic | Chinese | French | German | Irish | Russian | Scottish | Spanish | Welsh

text \<open>The decimal digits of a natural number: the string the code gets from a template
  literal such as \<^verbatim>\<open>`${index + 1}`\<close>.\<close>

fun decimal :: "nat \<Rightarrow> string" where
  "decimal n =
     (if n < 10 then [''0123456789'' ! n]
      else decimal (n div 10) @ [''0123456789'' ! (n mod 10)])"

declare decimal.simps [simp del]

section \<open>The message engine\<close>

text \<open>
  The outcome of the test the engine makes before it uses a part of \<^verbatim>\<open>Intl\<close> for its locale,
  \<^verbatim>\<open>Boolean(window.Intl && 'PluralRules' in window.Intl &&
  Intl.PluralRules.supportedLocalesOf(this.locale).length)\<close> and the same for
  \<^verbatim>\<open>NumberFormat\<close>: the unguarded \<^verbatim>\<open>supportedLocalesOf\<close> throws a \<^verbatim>\<open>RangeError\<close> on a locale
  that is no well-formed language tag (\<open>Malformed\<close>), or the test is false (no \<^verbatim>\<open>Intl\<close>, or
  not this part of it, or no data for the locale: \<open>Unsupported\<close>), or it is true and the
  part is there for the locale (\<open>Supported\<close>).
\<close>

datatype 'a support = Malformed | Unsupported | Supported 'a

text \<open>
  What the engine takes from the browser: for a locale, the test for \<^verbatim>\<open>Intl.PluralRules\<close>
  with the \<^verbatim>\<open>select\<close> of its rules and the test for \<^verbatim>\<open>Intl.NumberFormat\<close> with its \<^verbatim>\<open>format\<close>;
  the coercion of a number to a string, \<^verbatim>\<open>console.warn\<close> and the language of the document.
\<close>

record runtime =
  intlPluralRules :: "string \<Rightarrow> (rat \<Rightarrow> category) support"
  intlNumberFormat :: "string \<Rightarrow> (jsnum \<Rightarrow> string) support"
  numberToString :: "jsnum \<Rightarrow> string"
  consoleWarn :: bool
  documentLang :: string

record i18n =
  translationsOf :: "string \<rightharpoonup> jsval"
  localeOf :: string


text \<open>
  The coercion of a number to a string, on the numbers whose decimal expansion ends, has
  fifteen significant digits at most and needs no exponent (zero, and from \<open>0.000001\<close> up
  to below \<open>10\<^sup>2\<^sup>1\<close> in absolute value): there JavaScript prints the expansion itself.
  \<open>decimalPlaces\<close> is the number of digits after the point.
\<close>

definition decimalPlaces :: "rat \<Rightarrow> nat option" where
  "decimalPlaces q = find (\<lambda>e. of_int \<lfloor>q * 10 ^ e\<rfloor> = q * 10 ^ e) [0..<22]"

definition significantDigits :: "nat \<Rightarrow> nat" where
  "significantDigits n = length (dropWhile (\<lambda>c. c = CHR ''0'') (rev (decimal n)))"

definition shortDecimal :: "rat \<Rightarrow> bool" where
  "shortDecimal q \<longleftrightarrow>
     q = 0 \<or>
     (case decimalPlaces \<bar>q\<bar> of
        None \<Rightarrow> False
      | Some e \<Rightarrow>
          1 / 10 ^ 6 \<le> \<bar>q\<bar> \<and> \<bar>q\<bar> < 10 ^ 21
          \<and> significantDigits (nat \<lfloor>\<bar>q\<bar> * 10 ^ e\<rfloor>) \<le> 15)"

definition decimalString :: "rat \<Rightarrow> string" where
  "decimalString q =
     (case decimalPlaces \<bar>q\<bar> of
        None \<Rightarrow> []
      | Some e \<Rightarrow>
          (let digits = nat \<lfloor>\<bar>q\<bar> * 10 ^ e\<rfloor>;
               fraction = decimal (digits mod 10 ^ e)
           in (if q < 0 then ''-'' else [])
              @ decimal (digits div 10 ^ e)
              @ (if e = 0 then []
                 else ''.'' @ replicate (e - length fraction) (CHR ''0'') @ fraction)))"

text \<open>
  A browser without \<^verbatim>\<open>Intl\<close> and with a console, for the examples. Its coercion of a
  number to a string is given where \<open>shortDecimal\<close> holds and on the numbers that are not
  finite, and left open elsewhere.
\<close>

definition plainRuntime :: runtime where
  "plainRuntime =
     \<lparr>intlPluralRules = (\<lambda>l. Unsupported),
      intlNumberFormat = (\<lambda>l. Unsupported),
      numberToString = (\<lambda>n. case n of
          Fin q \<Rightarrow> if shortDecimal q then decimalString q else undefined
        | NaN \<Rightarrow> ''NaN''
        | PosInfinity \<Rightarrow> ''Infinity''
        | NegInfinity \<Rightarrow> ''-Infinity''),
      consoleWarn = True,
      documentLang = ''en''\<rparr>"

text \<open>
  A browser with \<^verbatim>\<open>Intl\<close> that has data for no locale: its two tests are false on a
  well-formed tag and throw on the malformed tag \<^verbatim>\<open>en_GB\<close>.
\<close>

definition strictRuntime :: runtime where
  "strictRuntime =
     plainRuntime
       \<lparr>intlPluralRules := (\<lambda>l. if l = ''en_GB'' then Malformed else Unsupported),
        intlNumberFormat := (\<lambda>l. if l = ''en_GB'' then Malformed else Unsupported)\<rparr>"

subsection \<open>Plural rules\<close>

definition pluralRulesMap :: "(family \<times> string list) list" where
  "pluralRulesMap =
     [(Arabic, [''ar'']),
      (Chinese, [''my'', ''zh'', ''id'', ''ja'', ''jv'', ''ko'', ''ms'', ''th'', ''vi'']),
      (French, [''hy'', ''bn'', ''fr'', ''gu'', ''hi'', ''fa'', ''pa'', ''zu'']),
      (German, [''af'', ''sq'', ''az'', ''eu'', ''bg'', ''ca'', ''da'', ''nl'', ''en'', ''et'',
                ''fi'', ''ka'', ''de'', ''el'', ''hu'', ''lb'', ''no'', ''so'', ''sw'', ''sv'',
                ''ta'', ''te'', ''tr'', ''ur'']),
      (Irish, [''ga'']),
      (Russian, [''ru'', ''uk'']),
      (Scottish, [''gd'']),
      (Spanish, [''pt-PT'', ''it'', ''es'']),
      (Welsh, [''cy''])]"

definition arabic :: "nat \<Rightarrow> category" where
  "arabic n =
     (if n = 0 then Zero
      else if n = 1 then One
      else if n = 2 then Two
      else if n mod 100 \<ge> 3 \<and> n mod 100 \<le> 10 then Few
      else if n mod 100 \<ge> 11 \<and> n mod 100 \<le> 99 then Many
      else Other)"

definition chinese :: "nat \<Rightarrow> category" where
  "chinese n = Other"

definition french :: "nat \<Rightarrow> category" where
  "french n = (if n = 0 \<or> n = 1 then One else Other)"

definition german :: "nat \<Rightarrow> category" where
  "german n = (if n = 1 then One else Other)"

definition irish :: "nat \<Rightarrow> category" where
  "irish n =
     (if n = 1 then One
      else if n = 2 then Two
      else if n \<ge> 3 \<and> n \<le> 6 then Few
      else if n \<ge> 7 \<and> n \<le> 10 then Many
      else Other)"

definition russian :: "nat \<Rightarrow> category" where
  "russian n =
     (let lastTwo = n mod 100; last = lastTwo mod 10 in
      if last = 1 \<and> lastTwo \<noteq> 11 then One
      else if last \<ge> 2 \<and> last \<le> 4 \<and> \<not> (lastTwo \<ge> 12 \<and> lastTwo \<le> 14) then Few
      else if last = 0 \<or> (last \<ge> 5 \<and> last \<le> 9) \<or> (lastTwo \<ge> 11 \<and> lastTwo \<le> 14) then Many
      else Other)"

definition scottish :: "nat \<Rightarrow> category" where
  "scottish n =
     (if n = 1 \<or> n = 11 then One
      else if n = 2 \<or> n = 12 then Two
      else if (n \<ge> 3 \<and> n \<le> 10) \<or> (n \<ge> 13 \<and> n \<le> 19) then Few
      else Other)"

definition spanish :: "nat \<Rightarrow> category" where
  "spanish n =
     (if n = 1 then One
      else if n mod 1000000 = 0 \<and> n \<noteq> 0 then Many
      else Other)"

definition welsh :: "nat \<Rightarrow> category" where
  "welsh n =
     (if n = 0 then Zero
      else if n = 1 then One
      else if n = 2 then Two
      else if n = 3 then Few
      else if n = 6 then Many
      else Other)"

fun pluralRules :: "family \<Rightarrow> nat \<Rightarrow> category" where
  "pluralRules Arabic = arabic"
| "pluralRules Chinese = chinese"
| "pluralRules French = french"
| "pluralRules German = german"
| "pluralRules Irish = irish"
| "pluralRules Russian = russian"
| "pluralRules Scottish = scottish"
| "pluralRules Spanish = spanish"
| "pluralRules Welsh = welsh"

text \<open>\<^verbatim>\<open>locale.split('-')[0]\<close>\<close>

definition localeShort :: "string \<Rightarrow> string" where
  "localeShort l = takeWhile (\<lambda>c. c \<noteq> CHR ''-'') l"

text \<open>The first family, in the order of the table, one of whose languages is the locale or
  its short form; \<open>None\<close> is the \<^verbatim>\<open>undefined\<close> the loop falls through to.\<close>

definition getPluralRulesForLocale :: "i18n \<Rightarrow> family option" where
  "getPluralRulesForLocale eng =
     map_option fst
       (find (\<lambda>(pluralRule, languages).
               localeOf eng \<in> set languages \<or> localeShort (localeOf eng) \<in> set languages)
             pluralRulesMap)"

text \<open>\<^verbatim>\<open>count = Math.abs(Math.floor(count))\<close>, on a finite count.\<close>

definition selectPluralFormUsingFallbackRules :: "i18n \<Rightarrow> rat \<Rightarrow> category" where
  "selectPluralFormUsingFallbackRules eng count =
     (let n = nat \<bar>\<lfloor>count\<rfloor>\<bar> in
      case getPluralRulesForLocale eng of
        Some ruleset \<Rightarrow> pluralRules ruleset n
      | None \<Rightarrow> Other)"

text \<open>The form preferred for a finite count: \<^verbatim>\<open>Intl.PluralRules\<close> where
  \<^verbatim>\<open>hasIntlPluralRulesSupport()\<close> holds, the built-in rules where it does not, and the
  exception where the test itself throws.\<close>

definition preferredForm :: "i18n \<Rightarrow> runtime \<Rightarrow> rat \<Rightarrow> error + category" where
  "preferredForm eng rt count =
     (case intlPluralRules rt (localeOf eng) of
        Malformed \<Rightarrow> Inl (RangeError (localeOf eng))
      | Supported select \<Rightarrow> Inr (select count)
      | Unsupported \<Rightarrow> Inr (selectPluralFormUsingFallbackRules eng count))"

definition pluralKey :: "string \<Rightarrow> category \<Rightarrow> string" where
  "pluralKey lookupKey form = lookupKey @ ''.'' @ categoryName form"

definition missingFormWarning :: "i18n \<Rightarrow> category \<Rightarrow> string" where
  "missingFormWarning eng form =
     ''i18n: Missing plural form \".'' @ categoryName form @ ''\" for \"'' @ localeOf eng
       @ ''\" locale. Falling back to \".other\".''"

text \<open>The result is paired with the lines written to \<^verbatim>\<open>console.warn\<close>.\<close>

definition getPluralSuffix ::
  "i18n \<Rightarrow> runtime \<Rightarrow> string \<Rightarrow> jsnum \<Rightarrow> (error + category) \<times> string list" where
  "getPluralSuffix eng rt lookupKey count =
     (case count of
        Fin c \<Rightarrow>
          (case preferredForm eng rt c of
             Inl e \<Rightarrow> (Inl e, [])
           | Inr preferred \<Rightarrow>
               if translationsOf eng (pluralKey lookupKey preferred) \<noteq> None
                 then (Inr preferred, [])
               else if translationsOf eng (pluralKey lookupKey Other) \<noteq> None
                 then (Inr Other, if consoleWarn rt then [missingFormWarning eng preferred] else [])
               else (Inl (PluralOtherRequired (localeOf eng)), []))
      | _ \<Rightarrow> (Inr Other, []))"

subsection \<open>Placeholders\<close>

text \<open>
  The pattern \<^verbatim>\<open>/%{(.\S+)}/\<close>: the two characters \<^verbatim>\<open>%{\<close>, one character that is not
  a line terminator, one or more characters that are not white space, as many as possible,
  and a closing brace. \<open>isWhiteSpace\<close> is the class \<^verbatim>\<open>\s\<close> on the code units below 256.
\<close>

definition isLineTerminator :: "char \<Rightarrow> bool" where
  "isLineTerminator c \<longleftrightarrow> c = CHR 0x0A \<or> c = CHR 0x0D"

definition isWhiteSpace :: "char \<Rightarrow> bool" where
  "isWhiteSpace c \<longleftrightarrow>
     c = CHR 0x09 \<or> c = CHR 0x0A \<or> c = CHR 0x0B \<or> c = CHR 0x0C \<or> c = CHR 0x0D
       \<or> c = CHR 0x20 \<or> c = CHR 0xA0"

text \<open>The last index at which a string holds a closing brace.\<close>

fun lastIndexOfBrace :: "string \<Rightarrow> nat option" where
  "lastIndexOfBrace [] = None"
| "lastIndexOfBrace (x # xs) =
     (case lastIndexOfBrace xs of
        Some j \<Rightarrow> Some (Suc j)
      | None \<Rightarrow> if x = CHR ''}'' then Some 0 else None)"

text \<open>The greatest index from 1 on at which the run holds a closing brace: where the
  greedy \<^verbatim>\<open>\S+\<close>, which takes one character at least, ends after backtracking.\<close>

definition lastBrace :: "string \<Rightarrow> nat option" where
  "lastBrace run =
     (case run of
        [] \<Rightarrow> None
      | x # xs \<Rightarrow> map_option Suc (lastIndexOfBrace xs))"

text \<open>A match of the pattern at the start of a string: the captured key and what follows
  the match.\<close>

fun matchPlaceholder :: "string \<Rightarrow> (string \<times> string) option" where
  "matchPlaceholder (p # b # c # r) =
     (if p = CHR ''%'' \<and> b = CHR ''{'' \<and> \<not> isLineTerminator c then
        (case lastBrace (takeWhile (\<lambda>x. \<not> isWhiteSpace x) r) of
           Some j \<Rightarrow> Some (c # take j r, drop (Suc j) r)
         | None \<Rightarrow> None)
      else None)"
| "matchPlaceholder _ = None"

text \<open>\<^verbatim>\<open>translationString.match(/%{(.\S+)}/)\<close>: the pattern matches somewhere.\<close>

fun hasPlaceholder :: "string \<Rightarrow> bool" where
  "hasPlaceholder [] = False"
| "hasPlaceholder (c # cs) = (matchPlaceholder (c # cs) \<noteq> None \<or> hasPlaceholder cs)"

text \<open>The replacer function given to \<^verbatim>\<open>replace\<close>; \<open>formatter\<close> is the
  \<^verbatim>\<open>Intl.NumberFormat\<close> made beforehand, if any.\<close>

definition replacer ::
  "runtime \<Rightarrow> (jsnum \<Rightarrow> string) option \<Rightarrow> (string \<rightharpoonup> jsval) \<Rightarrow> string \<Rightarrow> error + string" where
  "replacer rt formatter options placeholderKey =
     (case options placeholderKey of
        Some placeholderValue \<Rightarrow>
          (case placeholderValue of
             JNum n \<Rightarrow>
               (case formatter of
                  Some format \<Rightarrow> Inr (format n)
                | None \<Rightarrow> Inr (numberToString rt n))
           | JStr s \<Rightarrow> Inr s
           | _ \<Rightarrow> Inr [])
      | None \<Rightarrow> Inl (PlaceholderDataMissing (''%{'' @ placeholderKey @ ''}'')))"

text \<open>\<^verbatim>\<open>translationString.replace(/%{(.\S+)}/g, ...)\<close>: the matches from left to right,
  none overlapping; the first key without data throws.\<close>

function replaceMatches :: "(string \<Rightarrow> error + string) \<Rightarrow> string \<Rightarrow> error + string" where
  "replaceMatches f [] = Inr []"
| "replaceMatches f (c # cs) =
     (case matchPlaceholder (c # cs) of
        Some (placeholderKey, rest) \<Rightarrow>
          (case f placeholderKey of
             Inl e \<Rightarrow> Inl e
           | Inr v \<Rightarrow> (case replaceMatches f rest of Inl e \<Rightarrow> Inl e | Inr out \<Rightarrow> Inr (v @ out)))
      | None \<Rightarrow> (case replaceMatches f cs of Inl e \<Rightarrow> Inl e | Inr out \<Rightarrow> Inr (c # out)))"
  by pat_completeness auto
termination
proof (relation "measure (\<lambda>(f, s). length s)")
  fix f :: "string \<Rightarrow> error + string" and c cs x2 placeholderKey rest
  assume "matchPlaceholder (c # cs) = Some x2" and "(placeholderKey, rest) = x2"
  then have "length rest < length (c # cs)"
    by (cases "c # cs" rule: matchPlaceholder.cases) (auto split: if_splits option.splits)
  then show "((f, rest), f, c # cs) \<in> measure (\<lambda>(f, s). length s)"
    by simp
qed simp_all

text \<open>\<^verbatim>\<open>replacePlaceholders\<close> runs \<^verbatim>\<open>hasIntlNumberFormatSupport()\<close> first, whatever the string
  holds, so that the exception of that test comes before any replacement.\<close>

definition replacePlaceholders ::
  "i18n \<Rightarrow> runtime \<Rightarrow> string \<Rightarrow> (string \<rightharpoonup> jsval) \<Rightarrow> error + string" where
  "replacePlaceholders eng rt translationString options =
     (case intlNumberFormat rt (localeOf eng) of
        Malformed \<Rightarrow> Inl (RangeError (localeOf eng))
      | Unsupported \<Rightarrow> replaceMatches (replacer rt None options) translationString
      | Supported format \<Rightarrow> replaceMatches (replacer rt (Some format) options) translationString)"

subsection \<open>Lookup\<close>

text \<open>The part of \<^verbatim>\<open>t\<close> after the lookup key is settled: fetch the string, replace its
  placeholders, or hand the key back.\<close>

definition fetch :: "i18n \<Rightarrow> runtime \<Rightarrow> string \<Rightarrow> (string \<rightharpoonup> jsval) option \<Rightarrow> error + string" where
  "fetch eng rt lookupKey options =
     (case translationsOf eng lookupKey of
        Some (JStr translationString) \<Rightarrow>
          if hasPlaceholder translationString then
            (case options of
               None \<Rightarrow> Inl OptionsRequired
             | Some opts \<Rightarrow> replacePlaceholders eng rt translationString opts)
          else Inr translationString
      | _ \<Rightarrow> Inr lookupKey)"

text \<open>The lookup key after the \<^verbatim>\<open>count\<close> option is looked at: with a numeric count the
  plural suffix is appended; the lines written to \<^verbatim>\<open>console.warn\<close> come with it.\<close>

definition settleKey ::
  "i18n \<Rightarrow> runtime \<Rightarrow> string \<Rightarrow> (string \<rightharpoonup> jsval) option \<Rightarrow> (error + string) \<times> string list" where
  "settleKey eng rt lookupKey options =
     (case options of
        Some opts \<Rightarrow>
          (case opts ''count'' of
             Some (JNum count) \<Rightarrow>
               (case getPluralSuffix eng rt lookupKey count of
                  (Inl e, logged) \<Rightarrow> (Inl e, logged)
                | (Inr suffix, logged) \<Rightarrow> (Inr (pluralKey lookupKey suffix), logged))
           | _ \<Rightarrow> (Inr lookupKey, []))
      | None \<Rightarrow> (Inr lookupKey, []))"

text \<open>\<^verbatim>\<open>t(lookupKey, options)\<close>, with the lines it writes to \<^verbatim>\<open>console.warn\<close>.\<close>

definition tLogged ::
  "i18n \<Rightarrow> runtime \<Rightarrow> string \<Rightarrow> (string \<rightharpoonup> jsval) option \<Rightarrow> (error + string) \<times> string list" where
  "tLogged eng rt lookupKey options =
     (if lookupKey = [] then (Inl LookupKeyMissing, [])
      else
        (case settleKey eng rt lookupKey options of
           (Inl e, logged) \<Rightarrow> (Inl e, logged)
         | (Inr settled, logged) \<Rightarrow> (fetch eng rt settled options, logged)))"

definition t :: "i18n \<Rightarrow> runtime \<Rightarrow> string \<Rightarrow> (string \<rightharpoonup> jsval) option \<Rightarrow> error + string" where
  "t eng rt lookupKey options = fst (tLogged eng rt lookupKey options)"

section \<open>The glossary's plural rule families\<close>

text \<open>
  The rule families as the specification's glossary lists them, one condition for each
  category, \<open>other\<close> being what remains when no listed condition holds. The argument is the
  non-negative integer \<^verbatim>\<open>abs(floor(count))\<close>; the last digit is \<open>n mod 10\<close> and the last two
  digits are \<open>n mod 100\<close>.
\<close>

fun glossaryRule :: "family \<Rightarrow> nat \<Rightarrow> category \<Rightarrow> bool" where
  "glossaryRule Arabic n c =
     (case c of
        Zero \<Rightarrow> n = 0
      | One \<Rightarrow> n = 1
      | Two \<Rightarrow> n = 2
      | Few \<Rightarrow> n mod 100 \<in> {3..10}
      | Many \<Rightarrow> n mod 100 \<in> {11..99}
      | Other \<Rightarrow> \<not> (n = 0 \<or> n = 1 \<or> n = 2 \<or> n mod 100 \<in> {3..10} \<or> n mod 100 \<in> {11..99}))"
| "glossaryRule Chinese n c = (c = Other)"
| "glossaryRule French n c =
     (case c of One \<Rightarrow> n \<in> {0, 1} | Other \<Rightarrow> n \<notin> {0, 1} | _ \<Rightarrow> False)"
| "glossaryRule German n c =
     (case c of One \<Rightarrow> n = 1 | Other \<Rightarrow> n \<noteq> 1 | _ \<Rightarrow> False)"
| "glossaryRule Irish n c =
     (case c of
        One \<Rightarrow> n = 1
      | Two \<Rightarrow> n = 2
      | Few \<Rightarrow> n \<in> {3..6}
      | Many \<Rightarrow> n \<in> {7..10}
      | Other \<Rightarrow> \<not> (n = 1 \<or> n = 2 \<or> n \<in> {3..6} \<or> n \<in> {7..10})
      | Zero \<Rightarrow> False)"
| "glossaryRule Russian n c =
     (case c of
        One \<Rightarrow> n mod 10 = 1 \<and> n mod 100 \<noteq> 11
      | Few \<Rightarrow> n mod 10 \<in> {2..4} \<and> n mod 100 \<notin> {12..14}
      | Many \<Rightarrow> n mod 10 = 0 \<or> n mod 10 \<in> {5..9} \<or> n mod 100 \<in> {11..14}
      | Other \<Rightarrow> \<not> (n mod 10 = 1 \<and> n mod 100 \<noteq> 11)
                  \<and> \<not> (n mod 10 \<in> {2..4} \<and> n mod 100 \<notin> {12..14})
                  \<and> \<not> (n mod 10 = 0 \<or> n mod 10 \<in> {5..9} \<or> n mod 100 \<in> {11..14})
      | _ \<Rightarrow> False)"
| "glossaryRule Scottish n c =
     (case c of
        One \<Rightarrow> n = 1 \<or> n = 11
      | Two \<Rightarrow> n = 2 \<or> n = 12
      | Few \<Rightarrow> n \<in> {3..10} \<or> n \<in> {13..19}
      | Other \<Rightarrow> \<not> (n = 1 \<or> n = 11 \<or> n = 2 \<or> n = 12 \<or> n \<in> {3..10} \<or> n \<in> {13..19})
      | _ \<Rightarrow> False)"
| "glossaryRule Spanish n c =
     (case c of
        One \<Rightarrow> n = 1
      | Many \<Rightarrow> n mod 1000000 = 0 \<and> n \<noteq> 0
      | Other \<Rightarrow> \<not> (n = 1 \<or> (n mod 1000000 = 0 \<and> n \<noteq> 0))
      | _ \<Rightarrow> False)"
| "glossaryRule Welsh n c =
     (case c of
        Zero \<Rightarrow> n = 0
      | One \<Rightarrow> n = 1
      | Two \<Rightarrow> n = 2
      | Few \<Rightarrow> n = 3
      | Many \<Rightarrow> n = 6
      | Other \<Rightarrow> n \<notin> {0, 1, 2, 3, 6})"

section \<open>Translation strings as the specification reads them\<close>








definition twoFormsEngine :: i18n where
  "twoFormsEngine =
     \<lparr>translationsOf = [''key.one'' \<mapsto> JStr ''an item'', ''key.other'' \<mapsto> JStr ''items''],
      localeOf = ''ru''\<rparr>"

section \<open>The accordion\<close>

subsection \<open>Session storage\<close>

text \<open>
  \<^verbatim>\<open>window.sessionStorage\<close>: the stored pairs, the room it has (in characters of keys and
  values; \<^verbatim>\<open>setItem\<close> throws when the pairs would take more), and whether access to it is
  denied, in which case every operation throws.
\<close>

record storage =
  items :: "(string \<times> string) list"
  quota :: nat
  denied :: bool

definition storageSize :: "(string \<times> string) list \<Rightarrow> nat" where
  "storageSize kvs = sum_list (map (\<lambda>(k, v). length k + length v) kvs)"

definition setItem :: "string \<Rightarrow> string \<Rightarrow> storage \<Rightarrow> error + storage" where
  "setItem k v sto =
     (if denied sto then Inl StorageException
      else if storageSize (AList.update k v (items sto)) > quota sto then Inl StorageException
      else Inr (sto\<lparr>items := AList.update k v (items sto)\<rparr>))"

definition getItem :: "string \<Rightarrow> storage \<Rightarrow> error + string option" where
  "getItem k sto = (if denied sto then Inl StorageException else Inr (map_of (items sto) k))"




subsection \<open>The document\<close>

text \<open>
  The markup of a section before the component touches it, in the shape of the published
  template: a header, and in it the heading with the \<^verbatim>\<open>span\<close> of class
  \<^verbatim>\<open>govuk-accordion__section-button\<close> (its attributes in order, and its text) and a summary,
  each of which may be missing; the class \<^verbatim>\<open>govuk-accordion__section--expanded\<close>; the content
  wrapper. The markup holds none of the elements the component creates itself.
\<close>

record markupHeader =
  mButton :: "((string \<times> string) list \<times> string) option"
  mHeading :: bool
  mSummary :: "string option"

record markupSection =
  mExpanded :: bool
  mHeader :: "markupHeader option"
  mContent :: bool

record markupModule =
  mId :: string
  mSections :: "markupSection list"

text \<open>
  A section as the component sees it through \<^verbatim>\<open>querySelector\<close>: whether it carries the
  expanded class and has a header, the attributes of the element of class
  \<^verbatim>\<open>govuk-accordion__section-button\<close>, whether the chevron icon carries the class
  \<^verbatim>\<open>govuk-accordion-nav__chevron--down\<close>, the text of the toggle, the \<^verbatim>\<open>hidden\<close> attribute of
  the content wrapper, the text of the heading and of the summary; \<open>None\<close> where the element
  does not exist.
\<close>

record sectionEl =
  expandedClass :: bool
  hasHeader :: bool
  button :: "(string \<times> string) list option"
  showHideIcon :: "bool option"
  showHideText :: "string option"
  content :: "string option option"
  headingText :: "string option"
  summary :: "string option"




text \<open>
  The component with the part of the document and of the browser it works on: the sections
  in document order, the three attributes of the \<^verbatim>\<open>Show all sections\<close> button that
  \<^verbatim>\<open>updateShowAllButton\<close> writes, and the session storage.
\<close>

record accordion =
  i18nOf :: i18n
  env :: runtime
  rememberExpanded :: bool
  moduleId :: string
  sections :: "sectionEl list"
  browserSupportsSessionStorage :: bool
  showAllExpanded :: string
  showAllText :: string
  showAllIconDown :: bool
  sessionStorage :: storage

datatype outcome = Returned | Threw error

subsection \<open>Strings\<close>

definition boolString :: "bool \<Rightarrow> string" where
  "boolString b = (if b then ''true'' else ''false'')"

text \<open>\<^verbatim>\<open>String.prototype.trim\<close>\<close>

definition trim :: "string \<Rightarrow> string" where
  "trim s = rev (dropWhile isWhiteSpace (rev (dropWhile isWhiteSpace s)))"

text \<open>\<^verbatim>\<open>Array.prototype.join\<close>\<close>

fun join :: "string \<Rightarrow> string list \<Rightarrow> string" where
  "join sep [] = []"
| "join sep [x] = x"
| "join sep (x # y # ys) = x @ sep @ join sep (y # ys)"

subsection \<open>Operations\<close>

definition isExpanded :: "sectionEl \<Rightarrow> bool" where
  "isExpanded s = expandedClass s"

definition checkIfAllSectionsOpen :: "accordion \<Rightarrow> bool" where
  "checkIfAllSectionsOpen a =
     (let sectionsCount = length (sections a);
          expandedSectionCount = length (filter expandedClass (sections a))
      in sectionsCount = expandedSectionCount)"

text \<open>The keys the component asks \<^verbatim>\<open>t\<close> for, by the state to be shown.\<close>

definition allSectionsKey :: "bool \<Rightarrow> string" where
  "allSectionsKey expanded = (if expanded then ''hideAllSections'' else ''showAllSections'')"

definition sectionKey :: "bool \<Rightarrow> string" where
  "sectionKey expanded = (if expanded then ''hideSection'' else ''showSection'')"

definition ariaLabelKey :: "bool \<Rightarrow> string" where
  "ariaLabelKey expanded = (if expanded then ''hideSectionAriaLabel'' else ''showSectionAriaLabel'')"

definition updateShowAllButton :: "bool \<Rightarrow> accordion \<Rightarrow> outcome \<times> accordion" where
  "updateShowAllButton expanded a =
     (case t (i18nOf a) (env a) (allSectionsKey expanded) None of
        Inl e \<Rightarrow> (Threw e, a)
      | Inr newButtonText \<Rightarrow>
          (Returned,
           a\<lparr>showAllExpanded := boolString expanded,
             showAllText := newButtonText,
             showAllIconDown := \<not> expanded\<rparr>))"

text \<open>The guard of \<^verbatim>\<open>setExpanded\<close>: the icon, the toggle text, the button and the content
  wrapper are all there.\<close>

definition wellFormed :: "sectionEl \<Rightarrow> bool" where
  "wellFormed s \<longleftrightarrow>
     showHideIcon s \<noteq> None \<and> showHideText s \<noteq> None \<and> button s \<noteq> None \<and> content s \<noteq> None"

definition ariaLabelParts :: "sectionEl \<Rightarrow> string \<Rightarrow> string list" where
  "ariaLabelParts s ariaLabelMessage =
     (case headingText s of Some h \<Rightarrow> [trim h] | None \<Rightarrow> [])
     @ (case summary s of Some x \<Rightarrow> [trim x] | None \<Rightarrow> [])
     @ [ariaLabelMessage]"


definition setAttribute :: "string \<Rightarrow> string \<Rightarrow> sectionEl \<Rightarrow> sectionEl" where
  "setAttribute name v s = s\<lparr>button := map_option (AList.update name v) (button s)\<rparr>"

text \<open>The first writes of \<^verbatim>\<open>setExpanded\<close>: the text of the toggle and \<^verbatim>\<open>aria-expanded\<close>.\<close>

definition withToggleText :: "bool \<Rightarrow> string \<Rightarrow> sectionEl \<Rightarrow> sectionEl" where
  "withToggleText expanded newButtonText s =
     setAttribute ''aria-expanded'' (boolString expanded) (s\<lparr>showHideText := Some newButtonText\<rparr>)"

text \<open>The later writes: \<^verbatim>\<open>aria-label\<close>, the \<^verbatim>\<open>hidden\<close> attribute of the content, the expanded
  class and the class of the icon.\<close>

definition withExpanded :: "bool \<Rightarrow> string \<Rightarrow> sectionEl \<Rightarrow> sectionEl" where
  "withExpanded expanded ariaLabelMessage s =
     (setAttribute ''aria-label'' (join '' , '' (ariaLabelParts s ariaLabelMessage)) s)
       \<lparr>content := Some (if expanded then None else Some ''until-found''),
         expandedClass := expanded,
         showHideIcon := Some (\<not> expanded)\<rparr>"

text \<open>
  \<^verbatim>\<open>setExpanded(expanded, $section)\<close>, the section given by its index. What is written to
  the document before a call of \<^verbatim>\<open>t\<close> throws stays written.
\<close>

definition setExpanded :: "bool \<Rightarrow> nat \<Rightarrow> accordion \<Rightarrow> outcome \<times> accordion" where
  "setExpanded expanded i a =
     (if i < length (sections a) \<and> wellFormed (sections a ! i) then
        (case t (i18nOf a) (env a) (sectionKey expanded) None of
           Inl e \<Rightarrow> (Threw e, a)
         | Inr newButtonText \<Rightarrow>
             (let s1 = withToggleText expanded newButtonText (sections a ! i)
              in case t (i18nOf a) (env a) (ariaLabelKey expanded) None of
                   Inl e \<Rightarrow> (Threw e, a\<lparr>sections := (sections a)[i := s1]\<rparr>)
                 | Inr ariaLabelMessage \<Rightarrow>
                     (let a2 = a\<lparr>sections :=
                                   (sections a)[i := withExpanded expanded ariaLabelMessage s1]\<rparr>
                      in updateShowAllButton (checkIfAllSectionsOpen a2) a2)))
      else (Returned, a))"

definition storeState :: "nat \<Rightarrow> accordion \<Rightarrow> outcome \<times> accordion" where
  "storeState i a =
     (if i < length (sections a) \<and> browserSupportsSessionStorage a \<and> rememberExpanded a then
        (case button (sections a ! i) of
           Some attrs \<Rightarrow>
             (case (map_of attrs ''aria-controls'', map_of attrs ''aria-expanded'') of
                (Some contentId, Some contentState) \<Rightarrow>
                  if contentId \<noteq> [] \<and> contentState \<noteq> [] then
                    (case setItem contentId contentState (sessionStorage a) of
                       Inl e \<Rightarrow> (Threw e, a)
                     | Inr sto \<Rightarrow> (Returned, a\<lparr>sessionStorage := sto\<rparr>))
                  else (Returned, a)
              | _ \<Rightarrow> (Returned, a))
         | None \<Rightarrow> (Returned, a))
      else (Returned, a))"

definition setInitialState :: "nat \<Rightarrow> accordion \<Rightarrow> outcome \<times> accordion" where
  "setInitialState i a =
     (if i < length (sections a) \<and> browserSupportsSessionStorage a \<and> rememberExpanded a then
        (case button (sections a ! i) of
           Some attrs \<Rightarrow>
             (case map_of attrs ''aria-controls'' of
                Some contentId \<Rightarrow>
                  if contentId \<noteq> [] then
                    (case getItem contentId (sessionStorage a) of
                       Inl e \<Rightarrow> (Threw e, a)
                     | Inr (Some contentState) \<Rightarrow> setExpanded (contentState = ''true'') i a
                     | Inr None \<Rightarrow> (Returned, a))
                  else (Returned, a)
              | None \<Rightarrow> (Returned, a))
         | None \<Rightarrow> (Returned, a))
      else (Returned, a))"

text \<open>One statement after another: an exception ends the sequence.\<close>

definition andThen ::
  "outcome \<times> accordion \<Rightarrow> (accordion \<Rightarrow> outcome \<times> accordion) \<Rightarrow> outcome \<times> accordion" where
  "andThen r f = (case r of (Returned, a) \<Rightarrow> f a | (Threw e, a) \<Rightarrow> (Threw e, a))"

text \<open>\<^verbatim>\<open>this.$sections.forEach(...)\<close>, the sections given by their indices.\<close>

fun forEachSection ::
  "(nat \<Rightarrow> accordion \<Rightarrow> outcome \<times> accordion) \<Rightarrow> nat list \<Rightarrow> accordion \<Rightarrow> outcome \<times> accordion" where
  "forEachSection f [] a = (Returned, a)"
| "forEachSection f (i # is) a = andThen (f i a) (forEachSection f is)"

definition onSectionToggle :: "nat \<Rightarrow> accordion \<Rightarrow> outcome \<times> accordion" where
  "onSectionToggle i a =
     (let expanded = isExpanded (sections a ! i)
      in andThen (setExpanded (\<not> expanded) i a) (storeState i))"

definition onShowOrHideAllToggle :: "accordion \<Rightarrow> outcome \<times> accordion" where
  "onShowOrHideAllToggle a =
     (let nowExpanded = \<not> checkIfAllSectionsOpen a
      in andThen
           (forEachSection (\<lambda>i a'. andThen (setExpanded nowExpanded i a') (storeState i))
              [0..<length (sections a)] a)
           (updateShowAllButton nowExpanded))"

text \<open>\<^verbatim>\<open>onBeforeMatch\<close>: the argument is the index of the section the target of the event lies
  in, \<open>None\<close> when it lies in no section.\<close>

definition onBeforeMatch :: "nat option \<Rightarrow> accordion \<Rightarrow> outcome \<times> accordion" where
  "onBeforeMatch target a =
     (case target of
        Some i \<Rightarrow> setExpanded True i a
      | None \<Rightarrow> (Returned, a))"

subsection \<open>Initialisation\<close>

text \<open>
  \<^verbatim>\<open>constructHeaderMarkup\<close>: the \<^verbatim>\<open>span\<close> becomes a button that takes over its attributes
  except \<^verbatim>\<open>id\<close>, with a heading text, an icon and an empty toggle text; nothing happens
  when the \<^verbatim>\<open>span\<close> or the heading is missing.
\<close>

definition constructHeaderMarkup :: "string \<Rightarrow> markupHeader \<Rightarrow> nat \<Rightarrow> sectionEl \<Rightarrow> sectionEl" where
  "constructHeaderMarkup modId h index s =
     (case mButton h of
        Some (attributes, spanText) \<Rightarrow>
          if mHeading h then
            s\<lparr>button :=
                Some (foldl (\<lambda>attrs (name, v).
                               if name \<noteq> ''id'' then AList.update name v attrs else attrs)
                        [(''type'', ''button''),
                         (''aria-controls'', modId @ ''-content-'' @ decimal (index + 1))]
                        attributes),
              headingText := Some spanText,
              showHideIcon := Some False,
              showHideText := Some []\<rparr>
          else s
      | None \<Rightarrow> s)"

text \<open>The body of the loop of \<^verbatim>\<open>initSectionHeaders\<close>.\<close>

definition initSectionHeader :: "markupModule \<Rightarrow> nat \<Rightarrow> accordion \<Rightarrow> outcome \<times> accordion" where
  "initSectionHeader m i a =
     (case mHeader (mSections m ! i) of
        None \<Rightarrow> (Returned, a)
      | Some h \<Rightarrow>
          (let a1 = a\<lparr>sections :=
                        (sections a)[i := constructHeaderMarkup (moduleId a) h i (sections a ! i)]\<rparr>
           in andThen (setExpanded (isExpanded (sections a1 ! i)) i a1) (setInitialState i)))"



text \<open>The two labels \<^verbatim>\<open>setExpanded\<close> asks \<^verbatim>\<open>t\<close> for resolve without an exception.\<close>

definition labelsResolve :: "bool \<Rightarrow> accordion \<Rightarrow> bool" where
  "labelsResolve expanded a \<longleftrightarrow>
     \<not> isl (t (i18nOf a) (env a) (sectionKey expanded) None)
     \<and> \<not> isl (t (i18nOf a) (env a) (ariaLabelKey expanded) None)"

text \<open>The part of the component no operation changes after the constructor.\<close>

definition fixedPart :: "accordion \<Rightarrow> i18n \<times> runtime \<times> bool \<times> string \<times> bool" where
  "fixedPart a =
     (i18nOf a, env a, rememberExpanded a, moduleId a, browserSupportsSessionStorage a)"
















section \<open>The fallback plural rules\<close>

lemma last_digit_of_last_two: "(n mod 100) mod 10 = n mod (10::nat)"
  by (simp add: mod_mod_cancel)

lemma arabic_glossary: "arabic n = c \<longleftrightarrow> glossaryRule Arabic n c"
  by (cases c) (auto simp: arabic_def)

lemma chinese_glossary: "chinese n = c \<longleftrightarrow> glossaryRule Chinese n c"
  by (cases c) (auto simp: chinese_def)

lemma french_glossary: "french n = c \<longleftrightarrow> glossaryRule French n c"
  by (cases c) (auto simp: french_def)

lemma german_glossary: "german n = c \<longleftrightarrow> glossaryRule German n c"
  by (cases c) (auto simp: german_def)

lemma irish_glossary: "irish n = c \<longleftrightarrow> glossaryRule Irish n c"
  by (cases c) (auto simp: irish_def)

lemma teens_last_digit: "b \<in> {11..14} \<Longrightarrow> (b::nat) mod 10 = b - 10"
proof -
  assume "b \<in> {11..14}"
  then have "b = 11 \<or> b = 12 \<or> b = 13 \<or> b = 14" by auto
  then show ?thesis by auto
qed

lemma russian_unfold:
  "russian n =
     (if n mod 10 = 1 \<and> n mod 100 \<noteq> 11 then One
      else if n mod 10 \<in> {2..4} \<and> n mod 100 \<notin> {12..14} then Few
      else if n mod 10 = 0 \<or> n mod 10 \<in> {5..9} \<or> n mod 100 \<in> {11..14} then Many
      else Other)"
  by (simp add: russian_def Let_def last_digit_of_last_two)

lemma russian_one: "russian n = One \<longleftrightarrow> n mod 10 = 1 \<and> n mod 100 \<noteq> 11"
  unfolding russian_unfold by auto

lemma russian_few: "russian n = Few \<longleftrightarrow> n mod 10 \<in> {2..4} \<and> n mod 100 \<notin> {12..14}"
  unfolding russian_unfold by auto

lemma russian_many_digits:
  fixes a b :: nat
  assumes "b \<in> {11..14} \<Longrightarrow> a = b - 10"
  shows "(if a = 1 \<and> b \<noteq> 11 then One
          else if a \<in> {2..4} \<and> b \<notin> {12..14} then Few
          else if a = 0 \<or> a \<in> {5..9} \<or> b \<in> {11..14} then Many
          else Other) = Many
         \<longleftrightarrow> a = 0 \<or> a \<in> {5..9} \<or> b \<in> {11..14}"
proof (cases "b \<in> {11..14}")
  case True
  then have "b = 11 \<or> b = 12 \<or> b = 13 \<or> b = 14" by auto
  with assms [OF True] show ?thesis by auto
next
  case False
  then show ?thesis by auto
qed

lemma russian_many:
  "russian n = Many \<longleftrightarrow> n mod 10 = 0 \<or> n mod 10 \<in> {5..9} \<or> n mod 100 \<in> {11..14}"
proof -
  have "n mod 10 = n mod 100 - 10" if "n mod 100 \<in> {11..14}"
    using teens_last_digit [OF that] by (simp only: last_digit_of_last_two)
  then show ?thesis
    unfolding russian_unfold by (rule russian_many_digits)
qed

lemma russian_total_digits:
  fixes a b :: nat
  assumes "a < 10"
  shows "(if a = 1 \<and> b \<noteq> 11 then One
          else if a \<in> {2..4} \<and> b \<notin> {12..14} then Few
          else if a = 0 \<or> a \<in> {5..9} \<or> b \<in> {11..14} then Many
          else Other) \<in> {One, Few, Many}"
proof -
  have "a = 0 \<or> a = 1 \<or> a \<in> {2..4} \<or> a \<in> {5..9}"
    using assms by (simp only: atLeastAtMost_iff) linarith
  then show ?thesis
    by auto
qed

lemma russian_total: "russian n = One \<or> russian n = Few \<or> russian n = Many"
proof -
  have "n mod 10 < 10"
    by (rule mod_less_divisor) simp
  from russian_total_digits [OF this, of "n mod 100"] show ?thesis
    unfolding russian_unfold by (simp only: insert_iff empty_iff simp_thms)
qed

lemma russian_glossary: "russian n = c \<longleftrightarrow> glossaryRule Russian n c"
proof (cases c)
  case Other
  have "russian n \<noteq> Other"
    using russian_total [of n] by auto
  moreover have "\<not> glossaryRule Russian n Other"
    using russian_total [of n] by (auto simp: russian_one russian_few russian_many)
  ultimately show ?thesis
    using Other by simp
next
  case Zero
  then show ?thesis using russian_total [of n] by auto
next
  case Two
  then show ?thesis using russian_total [of n] by auto
qed (simp_all add: russian_one russian_few russian_many)

lemma scottish_glossary: "scottish n = c \<longleftrightarrow> glossaryRule Scottish n c"
  by (cases c) (auto simp: scottish_def)

lemma spanish_glossary: "spanish n = c \<longleftrightarrow> glossaryRule Spanish n c"
  by (cases c) (auto simp: spanish_def)

lemma welsh_glossary: "welsh n = c \<longleftrightarrow> glossaryRule Welsh n c"
  by (cases c) (auto simp: welsh_def)

text \<open>
  C3. On every non-negative integer each built-in rule function returns a category exactly
  when the glossary's rule for its family gives that category (so the glossary's conditions
  never overlap and the order in which the code tests them does not matter), and
  \<^verbatim>\<open>selectPluralFormUsingFallbackRules\<close> applies the function of the locale's family to
  \<^verbatim>\<open>abs(floor(count))\<close>, giving \<open>other\<close> for a locale of no family.
\<close>

theorem fallback_rules_follow_glossary:
  "(pluralRules fam n = c \<longleftrightarrow> glossaryRule fam n c)
   \<and> (selectPluralFormUsingFallbackRules eng count = c \<longleftrightarrow>
        (case getPluralRulesForLocale eng of
           Some ruleset \<Rightarrow> glossaryRule ruleset (nat \<bar>\<lfloor>count\<rfloor>\<bar>) c
         | None \<Rightarrow> c = Other))"
proof -
  have rules: "pluralRules f k = c \<longleftrightarrow> glossaryRule f k c" for f k
    by (cases f)
       (simp_all only: pluralRules.simps arabic_glossary chinese_glossary french_glossary
          german_glossary irish_glossary russian_glossary scottish_glossary spanish_glossary
          welsh_glossary)
  show ?thesis
    by (auto simp: rules selectPluralFormUsingFallbackRules_def Let_def split: option.splits)
qed

theorem fallback_rules_follow_glossary_witness:
  "pluralRules Welsh 6 = Many \<and> glossaryRule Welsh 6 Many
   \<and> selectPluralFormUsingFallbackRules \<lparr>translationsOf = Map.empty, localeOf = ''ru-RU''\<rparr>
        (- (45 / 2)) = Few"
proof -
  have "\<lfloor>- (45 / 2) :: rat\<rfloor> = - 23"
    by (rule floor_unique) simp_all
  then show ?thesis
    using fallback_rules_follow_glossary
            [of Welsh 6 Many "\<lparr>translationsOf = Map.empty, localeOf = ''ru-RU''\<rparr>" "- (45 / 2)"]
          fallback_rules_follow_glossary
            [of Russian 23 Few "\<lparr>translationsOf = Map.empty, localeOf = ''ru-RU''\<rparr>" "- (45 / 2)"]
    by (simp add: getPluralRulesForLocale_def pluralRulesMap_def localeShort_def)
qed



section \<open>Placeholders\<close>















lemma t_settle_error:
  assumes "lookupKey \<noteq> []" and "settleKey eng rt lookupKey options = (Inl e, logged)"
  shows "tLogged eng rt lookupKey options = (Inl e, logged)"
  using assms by (simp add: tLogged_def)











section \<open>Plural forms\<close>





text \<open>Where the test for \<^verbatim>\<open>Intl.PluralRules\<close> throws there is no preferred form: \<^verbatim>\<open>t\<close> raises
  the \<^verbatim>\<open>RangeError\<close> before it looks at the table.\<close>

lemma plural_test_throws:
  assumes "lookupKey \<noteq> []" and "opts ''count'' = Some (JNum (Fin count))"
    and "intlPluralRules rt (localeOf eng) = Malformed"
  shows "t eng rt lookupKey (Some opts) = Inl (RangeError (localeOf eng))"
  using assms
  by (simp add: t_def tLogged_def settleKey_def getPluralSuffix_def preferredForm_def)

lemma malformed_locale_example:
  "t (twoFormsEngine\<lparr>localeOf := ''en_GB''\<rparr>) strictRuntime ''key''
     (Some [''count'' \<mapsto> JNum (Fin 5)]) = Inl (RangeError ''en_GB'')"
  using plural_test_throws
    [of "''key''" "[''count'' \<mapsto> JNum (Fin 5)]" 5 strictRuntime
        "twoFormsEngine\<lparr>localeOf := ''en_GB''\<rparr>"]
  by (simp add: strictRuntime_def)





section \<open>What the operations of the accordion leave alone\<close>

lemma updateShowAllButton_frame:
  "sections (snd (updateShowAllButton e a)) = sections a"
  "fixedPart (snd (updateShowAllButton e a)) = fixedPart a"
  "sessionStorage (snd (updateShowAllButton e a)) = sessionStorage a"
  by (simp_all add: updateShowAllButton_def fixedPart_def split: sum.splits)


lemma setAttribute_fields:
  "expandedClass (setAttribute n v s) = expandedClass s"
  "hasHeader (setAttribute n v s) = hasHeader s"
  "showHideIcon (setAttribute n v s) = showHideIcon s"
  "showHideText (setAttribute n v s) = showHideText s"
  "content (setAttribute n v s) = content s"
  "headingText (setAttribute n v s) = headingText s"
  "summary (setAttribute n v s) = summary s"
  "(button (setAttribute n v s) = None) = (button s = None)"
  by (simp_all add: setAttribute_def)



lemma withToggleText_fields:
  "expandedClass (withToggleText e x s) = expandedClass s"
  "hasHeader (withToggleText e x s) = hasHeader s"
  "wellFormed (withToggleText e x s) = (showHideIcon s \<noteq> None \<and> button s \<noteq> None \<and> content s \<noteq> None)"
  "headingText (withToggleText e x s) = headingText s"
  "summary (withToggleText e x s) = summary s"
  by (simp_all add: withToggleText_def setAttribute_fields wellFormed_def)

lemma withExpanded_fields:
  "expandedClass (withExpanded e x s) = e"
  "hasHeader (withExpanded e x s) = hasHeader s"
  "wellFormed (withExpanded e x s) = (showHideText s \<noteq> None \<and> button s \<noteq> None)"
  "headingText (withExpanded e x s) = headingText s"
  "summary (withExpanded e x s) = summary s"
  by (simp_all add: withExpanded_def setAttribute_fields wellFormed_def)

text \<open>The three ways through \<^verbatim>\<open>setExpanded\<close> on a well-formed section.\<close>

lemma setExpanded_malformed:
  "\<not> (i < length (sections a) \<and> wellFormed (sections a ! i)) \<Longrightarrow>
   setExpanded e i a = (Returned, a)"
  by (auto simp: setExpanded_def)

lemma setExpanded_threw_first:
  assumes "i < length (sections a)" "wellFormed (sections a ! i)"
    and "t (i18nOf a) (env a) (sectionKey e) None = Inl err"
  shows "setExpanded e i a = (Threw err, a)"
  using assms by (simp add: setExpanded_def)

lemma setExpanded_threw_second:
  assumes "i < length (sections a)" "wellFormed (sections a ! i)"
    and "t (i18nOf a) (env a) (sectionKey e) None = Inr x"
    and "t (i18nOf a) (env a) (ariaLabelKey e) None = Inl err"
  shows "setExpanded e i a =
           (Threw err, a\<lparr>sections := (sections a)[i := withToggleText e x (sections a ! i)]\<rparr>)"
  using assms by (simp add: setExpanded_def)

lemma setExpanded_through:
  assumes "i < length (sections a)" "wellFormed (sections a ! i)"
    and "t (i18nOf a) (env a) (sectionKey e) None = Inr x"
    and "t (i18nOf a) (env a) (ariaLabelKey e) None = Inr y"
  shows "setExpanded e i a =
           updateShowAllButton
             (checkIfAllSectionsOpen
                (a\<lparr>sections :=
                     (sections a)[i := withExpanded e y (withToggleText e x (sections a ! i))]\<rparr>))
             (a\<lparr>sections :=
                  (sections a)[i := withExpanded e y (withToggleText e x (sections a ! i))]\<rparr>)"
  using assms by (simp add: setExpanded_def Let_def)

text \<open>Every run of \<^verbatim>\<open>setExpanded\<close> is one of the four.\<close>

lemma setExpanded_cases:
  obtains (malformed) "\<not> (i < length (sections a) \<and> wellFormed (sections a ! i))"
      "setExpanded e i a = (Returned, a)"
  | (first) err where "i < length (sections a)" "wellFormed (sections a ! i)"
      "\<not> labelsResolve e a" "setExpanded e i a = (Threw err, a)"
  | (second) err x where "i < length (sections a)" "wellFormed (sections a ! i)"
      "\<not> labelsResolve e a"
      "setExpanded e i a =
         (Threw err, a\<lparr>sections := (sections a)[i := withToggleText e x (sections a ! i)]\<rparr>)"
  | (through) x y where "i < length (sections a)" "wellFormed (sections a ! i)"
      "labelsResolve e a"
      "setExpanded e i a =
         updateShowAllButton
           (checkIfAllSectionsOpen
              (a\<lparr>sections :=
                   (sections a)[i := withExpanded e y (withToggleText e x (sections a ! i))]\<rparr>))
           (a\<lparr>sections :=
                (sections a)[i := withExpanded e y (withToggleText e x (sections a ! i))]\<rparr>)"
proof (cases "i < length (sections a) \<and> wellFormed (sections a ! i)")
  case False
  then show ?thesis using malformed setExpanded_malformed by blast
next
  case True
  then have g: "i < length (sections a)" "wellFormed (sections a ! i)" by simp_all
  show ?thesis
  proof (cases "t (i18nOf a) (env a) (sectionKey e) None")
    case (Inl err)
    then have "\<not> labelsResolve e a" by (simp add: labelsResolve_def)
    then show ?thesis using first g setExpanded_threw_first [OF g Inl] by blast
  next
    case x: (Inr x)
    show ?thesis
    proof (cases "t (i18nOf a) (env a) (ariaLabelKey e) None")
      case (Inl err)
      then have "\<not> labelsResolve e a" by (simp add: labelsResolve_def)
      then show ?thesis using second g setExpanded_threw_second [OF g x Inl] by blast
    next
      case (Inr y)
      then have "labelsResolve e a" using x by (simp add: labelsResolve_def)
      then show ?thesis using through g setExpanded_through [OF g x Inr] by blast
    qed
  qed
qed

lemma setExpanded_frame:
  "fixedPart (snd (setExpanded e i a)) = fixedPart a"
  "sessionStorage (snd (setExpanded e i a)) = sessionStorage a"
  "length (sections (snd (setExpanded e i a))) = length (sections a)"
  by (cases e i a rule: setExpanded_cases;
      simp add: updateShowAllButton_frame; simp add: fixedPart_def)+

lemma setExpanded_others:
  "j \<noteq> i \<Longrightarrow> sections (snd (setExpanded e i a)) ! j = sections a ! j"
  by (cases e i a rule: setExpanded_cases) (simp_all add: updateShowAllButton_frame)

lemma setExpanded_wellFormed:
  "wellFormed (sections (snd (setExpanded e i a)) ! j) = wellFormed (sections a ! j)"
proof (cases "j = i")
  case True
  show ?thesis
    by (cases e i a rule: setExpanded_cases)
       (auto simp: True updateShowAllButton_frame withToggleText_fields withExpanded_fields
          wellFormed_def withToggleText_def withExpanded_def setAttribute_fields)
next
  case False
  then show ?thesis by (simp add: setExpanded_others)
qed

lemma setExpanded_hasHeader:
  "hasHeader (sections (snd (setExpanded e i a)) ! j) = hasHeader (sections a ! j)"
proof (cases "j = i")
  case True
  show ?thesis
    by (cases e i a rule: setExpanded_cases)
       (auto simp: True updateShowAllButton_frame withToggleText_fields withExpanded_fields)
next
  case False
  then show ?thesis by (simp add: setExpanded_others)
qed

lemma setExpanded_class:
  assumes "i < length (sections a)" and "wellFormed (sections a ! i)"
  shows "expandedClass (sections (snd (setExpanded e i a)) ! i) =
           (if labelsResolve e a then e else expandedClass (sections a ! i))"
  using assms
  by (cases e i a rule: setExpanded_cases)
     (auto simp: updateShowAllButton_frame withToggleText_fields withExpanded_fields)




section \<open>Sequences and loops\<close>


lemma andThen_threw:
  "r = (Threw e, a1) \<Longrightarrow> andThen r f = (Threw e, a1)"
  by (simp add: andThen_def)

lemma andThen_step: "r = (Returned, a1) \<Longrightarrow> andThen r f = f a1"
  by (simp add: andThen_def)

lemma andThen_preserves:
  assumes "g (snd r) = x" and "\<And>a. g (snd (f a)) = g a"
  shows "g (snd (andThen r f)) = x"
  using assms by (cases r; cases "fst r") (auto simp: andThen_def)

lemma forEachSection_preserves:
  assumes "\<And>i a. g (snd (f i a)) = g a"
  shows "g (snd (forEachSection f js a)) = g a"
proof (induction js arbitrary: a)
  case Nil
  then show ?case by simp
next
  case (Cons j js)
  show ?case
    using andThen_preserves [of g "f j a" "g a" "forEachSection f js"] assms Cons
    by simp
qed

lemma forEachSection_append:
  "forEachSection f (xs @ ys) a = andThen (forEachSection f xs a) (forEachSection f ys)"
proof (induction xs arbitrary: a)
  case Nil
  then show ?case by (simp add: andThen_def)
next
  case (Cons x xs)
  show ?case
    by (cases "f x a"; cases "fst (f x a)") (auto simp: andThen_def Cons)
qed

section \<open>What the handlers leave alone\<close>

lemma storeState_frame:
  "sections (snd (storeState i a)) = sections a"
  "fixedPart (snd (storeState i a)) = fixedPart a"
  "showAllExpanded (snd (storeState i a)) = showAllExpanded a"
  "showAllText (snd (storeState i a)) = showAllText a"
  "showAllIconDown (snd (storeState i a)) = showAllIconDown a"
  by (auto simp: storeState_def fixedPart_def split: option.splits sum.splits)

lemma storeState_unsupported:
  "\<not> (browserSupportsSessionStorage a \<and> rememberExpanded a) \<Longrightarrow> storeState i a = (Returned, a)"
  by (auto simp: storeState_def)

lemma setInitialState_unsupported:
  "\<not> (browserSupportsSessionStorage a \<and> rememberExpanded a) \<Longrightarrow>
   setInitialState i a = (Returned, a)"
  by (auto simp: setInitialState_def)


lemma setInitialState_others:
  "j \<noteq> i \<Longrightarrow> sections (snd (setInitialState i a)) ! j = sections a ! j"
  by (auto simp: setInitialState_def setExpanded_others split: option.splits sum.splits)

lemma onSectionToggle_frame:
  "fixedPart (snd (onSectionToggle i a)) = fixedPart a"
  "length (sections (snd (onSectionToggle i a))) = length (sections a)"
  unfolding onSectionToggle_def Let_def
  by (rule andThen_preserves; simp add: setExpanded_frame storeState_frame)+

lemma onSectionToggle_others:
  "j \<noteq> i \<Longrightarrow> sections (snd (onSectionToggle i a)) ! j = sections a ! j"
  unfolding onSectionToggle_def Let_def
  by (rule andThen_preserves [where g = "\<lambda>a. sections a ! j"])
     (simp_all add: setExpanded_others storeState_frame)

lemma onSectionToggle_section:
  "sections (snd (onSectionToggle i a)) =
   sections (snd (setExpanded (\<not> isExpanded (sections a ! i)) i a))"
  unfolding onSectionToggle_def Let_def
  by (rule andThen_preserves) (simp_all add: storeState_frame)

lemma toggleAll_body_frame:
  "fixedPart (snd (andThen (setExpanded e i a) (storeState i))) = fixedPart a"
  "length (sections (snd (andThen (setExpanded e i a) (storeState i)))) = length (sections a)"
  by (rule andThen_preserves; simp add: setExpanded_frame storeState_frame)+

lemma onShowOrHideAllToggle_frame:
  "fixedPart (snd (onShowOrHideAllToggle a)) = fixedPart a"
  "length (sections (snd (onShowOrHideAllToggle a))) = length (sections a)"
  unfolding onShowOrHideAllToggle_def Let_def
  by (rule andThen_preserves, rule forEachSection_preserves;
      simp add: toggleAll_body_frame updateShowAllButton_frame)+

lemma onBeforeMatch_frame:
  "fixedPart (snd (onBeforeMatch target a)) = fixedPart a"
  "sessionStorage (snd (onBeforeMatch target a)) = sessionStorage a"
  "length (sections (snd (onBeforeMatch target a))) = length (sections a)"
  by (cases target; simp add: onBeforeMatch_def setExpanded_frame)+

section \<open>What the constructor fixes\<close>


lemma initSectionHeader_others:
  "j \<noteq> i \<Longrightarrow> sections (snd (initSectionHeader m i a)) ! j = sections a ! j"
proof (cases "mHeader (mSections m ! i)")
  case None
  then show ?thesis by (simp add: initSectionHeader_def)
next
  case (Some h)
  assume "j \<noteq> i"
  then show ?thesis
    unfolding initSectionHeader_def Let_def Some option.case
    by (intro andThen_preserves [where g = "\<lambda>a. sections a ! j"])
       (simp_all add: setExpanded_others setInitialState_others)
qed





section \<open>The scenario of the specification\<close>








section \<open>The accessible label\<close>








section \<open>The button for all sections\<close>










end
